theory Spec2Isabelle
  imports Main "HOL-Library.Sublist"
begin

section \<open>Limits\<close>

text \<open>
  \<^verbatim>\<open>MAX_ATTACHMENTS_PER_TASK = 10\<close>, \<^verbatim>\<open>MAX_ATTACHMENT_BYTES = 20 * 1024 * 1024\<close>
  and \<^verbatim>\<open>UPLOAD_PARALLELISM = 2\<close> of \<^verbatim>\<open>bot_handlers.py\<close>.
\<close>

definition MAX_ATTACHMENTS_PER_TASK :: nat where
  "MAX_ATTACHMENTS_PER_TASK = 10"

definition MAX_ATTACHMENT_BYTES :: int where
  "MAX_ATTACHMENT_BYTES = 20 * 1024 * 1024"

definition UPLOAD_PARALLELISM :: int where
  "UPLOAD_PARALLELISM = 2"

text \<open>
  \<^verbatim>\<open>_attachment_too_large(size_bytes)\<close>: the reported size is an \<^verbatim>\<open>int | None\<close>;
  \<^verbatim>\<open>not size_bytes\<close> holds for \<^verbatim>\<open>None\<close> and for \<^verbatim>\<open>0\<close>.
\<close>

definition attachment_too_large :: "int option \<Rightarrow> bool" where
  "attachment_too_large size_bytes =
     (case size_bytes of
        None \<Rightarrow> False
      | Some n \<Rightarrow> if n = 0 then False else n > MAX_ATTACHMENT_BYTES)"

section \<open>Text helpers\<close>

text \<open>
  Python text is modelled as \<^typ>\<open>string\<close>. \<^verbatim>\<open>str.strip()\<close> removes the white
  space of both ends; the white-space characters below are the ones of Python's
  \<^verbatim>\<open>str.isspace\<close> among the first 256 code points.
\<close>

definition is_space :: "char \<Rightarrow> bool" where
  "is_space c = (of_char c \<in> {9, 10, 11, 12, 13, 28, 29, 30, 31, 32, 133, 160 :: nat})"

definition lstrip :: "string \<Rightarrow> string" where
  "lstrip s = dropWhile is_space s"

definition rstrip :: "string \<Rightarrow> string" where
  "rstrip s = rev (dropWhile is_space (rev s))"

definition strip :: "string \<Rightarrow> string" where
  "strip s = rstrip (lstrip s)"

text \<open>
  \<^verbatim>\<open>os.path.basename\<close> (POSIX): the part of the path after its last slash.
\<close>

definition basename :: "string \<Rightarrow> string" where
  "basename p = rev (takeWhile (\<lambda>c. c \<noteq> CHR ''/'') (rev p))"

text \<open>
  \<^verbatim>\<open>str.lower()\<close> on the letters \<^verbatim>\<open>A\<close> to \<^verbatim>\<open>Z\<close>; every other character is
  kept. Python agrees on all text whose lower-casing yields no ASCII letter from a
  non-ASCII one (the code points U+0130 and U+212A are the only ones that do).
\<close>

definition lower_char :: "char \<Rightarrow> char" where
  "lower_char c =
     (let n = (of_char c :: nat) in if 65 \<le> n \<and> n \<le> 90 then char_of (n + 32) else c)"

definition lower :: "string \<Rightarrow> string" where
  "lower s = map lower_char s"

text \<open>The \<^verbatim>\<open>x or ""\<close> idiom on an optional text.\<close>

definition or_empty :: "string option \<Rightarrow> string" where
  "or_empty x = (case x of None \<Rightarrow> [] | Some s \<Rightarrow> s)"

section \<open>Failures and the error classifier\<close>

text \<open>
  The failures the handlers tell apart: \<^verbatim>\<open>httpx.TransportError\<close>, the dataclass
  \<^verbatim>\<open>BitrixError(message, details)\<close> of \<^verbatim>\<open>bitrix.py\<close>, and every other exception.
\<close>

datatype exc =
    TransportError string
  | BitrixError string string
  | OtherError string

text \<open>The tuple \<^verbatim>\<open>markers\<close> of \<^verbatim>\<open>_is_retryable_upload_error\<close>, in source order.\<close>

definition markers :: "string list" where
  "markers =
     [''timeout'', ''readtimeout'', ''connecttimeout'', ''remoteprotocolerror'',
      ''all disk upload strategies failed'', ''temporar'', ''service unavailable'',
      ''gateway timeout'', ''too many request'', ''internal'', ''network'',
      ''502'', ''503'', ''504'']"

text \<open>
  \<^verbatim>\<open>_is_retryable_upload_error(exc)\<close>: \<^verbatim>\<open>marker in details\<close> is substring
  containment, \<^const>\<open>sublist\<close>.
\<close>

definition is_retryable_upload_error :: "exc \<Rightarrow> bool" where
  "is_retryable_upload_error e =
     (case e of
        TransportError _ \<Rightarrow> True
      | BitrixError message details \<Rightarrow>
          (let d = lower (message @ '' '' @ details)
           in list_ex (\<lambda>marker. sublist marker d) markers)
      | OtherError _ \<Rightarrow> False)"

text \<open>
  The decimal text of a status code, as the f-string \<^verbatim>\<open>(HTTP {r.status_code})\<close>
  prints it.
\<close>

definition digit_char :: "nat \<Rightarrow> char" where
  "digit_char d = char_of (48 + d)"

fun str_nat :: "nat \<Rightarrow> string" where
  "str_nat n = (if n < 10 then [digit_char n] else str_nat (n div 10) @ [digit_char (n mod 10)])"

declare str_nat.simps [simp del]

text \<open>
  The reply handling of \<^verbatim>\<open>BitrixClient.upload_to_folder\<close>, by the shape of what
  \<^verbatim>\<open>r.json()\<close> returns.

  A JSON object is represented by the three observations the method makes of it: whether
  it has the key \<^verbatim>\<open>"error"\<close> (with the values of \<^verbatim>\<open>error\<close> and of the optional
  \<^verbatim>\<open>error_description\<close>, as texts), the value of \<^verbatim>\<open>int(payload["result"]["ID"])\<close>
  when that expression does not raise, and the text \<^verbatim>\<open>str(payload)\<close>.

  A JSON array is represented by whether the text \<^verbatim>\<open>"error"\<close> is one of its elements
  and by \<^verbatim>\<open>str(payload)\<close>; a JSON string by its text; a number, \<^verbatim>\<open>true\<close>,
  \<^verbatim>\<open>false\<close> or \<^verbatim>\<open>null\<close> by \<^verbatim>\<open>str(payload)\<close>.
\<close>

record json_object =
  p_error :: "(string \<times> string option) option"
  p_result_id :: "int option"
  p_text :: string

datatype payload =
    JsonObject json_object
  | JsonArray bool string
  | JsonString string
  | JsonScalar string

text \<open>
  What the request yields: a transport failure of \<^verbatim>\<open>client.post\<close>, another exception
  raised before a reply is read (\<^verbatim>\<open>open(local_path)\<close> failing, \<^verbatim>\<open>int(folder_id)\<close>
  raising, a request error of the HTTP client that is no transport error), a reply that
  is no JSON, with its status code and body, or a JSON reply.
\<close>

datatype http_reply =
    NoReply string
  | Raised string
  | NonJson nat string
  | Json payload

text \<open>
  The test \<^verbatim>\<open>"error" in payload\<close> is a key test on an object, an element test on an
  array and a substring test on a string, and raises \<^verbatim>\<open>TypeError\<close> on the other values.
  When it holds of an array or a string, \<^verbatim>\<open>payload.get\<close> raises \<^verbatim>\<open>AttributeError\<close>.
  When it does not hold, \<^verbatim>\<open>payload["result"]\<close> raises \<^verbatim>\<open>TypeError\<close> on an array or
  a string, inside the \<^verbatim>\<open>try\<close> that turns every exception into the parse failure.
\<close>

definition upload_to_folder_result :: "http_reply \<Rightarrow> exc + int" where
  "upload_to_folder_result r =
     (case r of
        NoReply why \<Rightarrow> Inl (TransportError why)
      | Raised why \<Rightarrow> Inl (OtherError why)
      | NonJson status_code body \<Rightarrow>
          Inl (BitrixError
                (''Bitrix returned non-JSON response (HTTP '' @ str_nat status_code @ '')'') body)
      | Json payload \<Rightarrow>
          (case payload of
             JsonObject p \<Rightarrow>
               (case p_error p of
                  Some (err, description) \<Rightarrow> Inl (BitrixError err (or_empty description))
                | None \<Rightarrow>
                    (case p_result_id p of
                       Some file_id \<Rightarrow> Inr file_id
                     | None \<Rightarrow>
                         Inl (BitrixError ''Cannot parse disk file id from Bitrix response''
                               (p_text p))))
           | JsonArray has_error payload_text \<Rightarrow>
               if has_error then Inl (OtherError ''AttributeError'')
               else Inl (BitrixError ''Cannot parse disk file id from Bitrix response''
                          payload_text)
           | JsonString s \<Rightarrow>
               if sublist ''error'' s then Inl (OtherError ''AttributeError'')
               else Inl (BitrixError ''Cannot parse disk file id from Bitrix response'' s)
           | JsonScalar payload_text \<Rightarrow> Inl (OtherError ''TypeError'')))"

section \<open>Staged files and the upload orchestrator\<close>

text \<open>
  \<^verbatim>\<open>SavedFile(original_name, local_path)\<close>; the name may be absent, which the
  \<^verbatim>\<open>or ""\<close> of \<^verbatim>\<open>_saved_file_label\<close> provides for.
\<close>

record saved_file =
  original_name :: "string option"
  local_path :: string

text \<open>
  \<^verbatim>\<open>_saved_file_label\<close>: the trimmed name when it is not empty, else the base name
  of the local path, else \<^verbatim>\<open>"file"\<close>.
\<close>

definition saved_file_label :: "saved_file \<Rightarrow> string" where
  "saved_file_label sf =
     (let name = strip (or_empty (original_name sf))
      in if name \<noteq> [] then name
         else (let b = basename (local_path sf) in if b \<noteq> [] then b else ''file''))"

text \<open>
  One call of \<^verbatim>\<open>bitrix.upload_to_folder\<close>, by its keyword arguments. The storage
  collaborator is a function from the call to its outcome: the raised exception or the
  returned file id.
\<close>

record upload_call =
  uc_folder_id :: int
  uc_local_path :: string
  uc_filename :: string
  uc_upload_attempt :: int
  uc_upload_max_attempts :: int

type_synonym storage = "upload_call \<Rightarrow> exc + int"

text \<open>
  The loop \<^verbatim>\<open>for attempt in range(1, max_attempts + 1)\<close> of \<^verbatim>\<open>_upload_one\<close>, from
  the attempt number \<open>attempt\<close> on. The result is the pair the coroutine returns,
  \<^verbatim>\<open>(file_id, None)\<close> or \<^verbatim>\<open>(None, file_label)\<close>, together with the calls made to the
  collaborator, in order. An exhausted range falls through to the final
  \<^verbatim>\<open>return None, file_label\<close>.
\<close>

function upload_attempts ::
  "storage \<Rightarrow> int \<Rightarrow> saved_file \<Rightarrow> int \<Rightarrow> int
     \<Rightarrow> (int option \<times> string option) \<times> upload_call list" where
  "upload_attempts remote folder_id sf max_attempts attempt =
     (let file_label = saved_file_label sf in
      if attempt > max_attempts then ((None, Some file_label), [])
      else
        (let c = \<lparr>uc_folder_id = folder_id, uc_local_path = local_path sf,
                   uc_filename = file_label, uc_upload_attempt = attempt,
                   uc_upload_max_attempts = max_attempts\<rparr>
         in case remote c of
              Inr file_id \<Rightarrow> ((Some file_id, None), [c])
            | Inl e \<Rightarrow>
                if attempt < max_attempts \<and> is_retryable_upload_error e
                then (let (r, cs) = upload_attempts remote folder_id sf max_attempts (attempt + 1)
                      in (r, c # cs))
                else ((None, Some file_label), [c])))"
  by pat_completeness auto
termination
  by (relation "measure (\<lambda>(remote, folder_id, sf, max_attempts, attempt).
        nat (max_attempts + 1 - attempt))") auto

declare upload_attempts.simps [simp del]

definition upload_one ::
  "storage \<Rightarrow> int \<Rightarrow> int \<Rightarrow> saved_file \<Rightarrow> (int option \<times> string option) \<times> upload_call list" where
  "upload_one remote folder_id max_attempts sf = upload_attempts remote folder_id sf max_attempts 1"

text \<open>
  The size of the semaphore, \<^verbatim>\<open>max(1, min(upload_parallelism, len(files)))\<close>. It bounds
  how many coroutines are inside \<^verbatim>\<open>async with semaphore\<close> at a time and enters no
  result.
\<close>

definition semaphore_slots :: "int \<Rightarrow> saved_file list \<Rightarrow> int" where
  "semaphore_slots upload_parallelism files = max 1 (min upload_parallelism (int (length files)))"

text \<open>
  The aggregation loop over \<^verbatim>\<open>results\<close>: \<^verbatim>\<open>if file_id is not None\<close> appends the id,
  \<^verbatim>\<open>if failed\<close> appends the name when it is neither \<^verbatim>\<open>None\<close> nor empty.
\<close>

fun aggregate :: "(int option \<times> string option) list \<Rightarrow> int list \<times> string list" where
  "aggregate [] = ([], [])"
| "aggregate ((file_id, failed) # rest) =
     (let (uploaded_ids, failed_files) = aggregate rest
      in ((case file_id of Some i \<Rightarrow> i # uploaded_ids | None \<Rightarrow> uploaded_ids),
          (case failed of
             Some name \<Rightarrow> if name \<noteq> [] then name # failed_files else failed_files
           | None \<Rightarrow> failed_files)))"

text \<open>
  \<^verbatim>\<open>_upload_files_to_bitrix_disk\<close>. \<^verbatim>\<open>asyncio.gather\<close> returns the results of the
  coroutines in the order of \<^verbatim>\<open>files\<close>, whatever the order in which they finish, so
  \<^verbatim>\<open>results\<close> is the list of the per-file results in input order. The collaborator is
  given per position of the input: \<open>remote i\<close> answers the calls made for the file at
  position \<open>i\<close>, which lets the outcome of a call depend on the moment it is made. The
  second component lists, per file and in input order, the calls made for it.
\<close>

definition upload_files_to_bitrix_disk ::
  "(nat \<Rightarrow> storage) \<Rightarrow> int \<Rightarrow> saved_file list \<Rightarrow> int \<Rightarrow> int
     \<Rightarrow> (int list \<times> string list) \<times> upload_call list list" where
  "upload_files_to_bitrix_disk remote folder_id files max_attempts upload_parallelism =
     (if files = [] then (([], []), [])
      else
        (let results = map (\<lambda>(i, sf). upload_one (remote i) folder_id max_attempts sf)
                         (enumerate 0 files)
         in (aggregate (map fst results), map snd results)))"

section \<open>The ticketing collaborator\<close>

text \<open>
  One call of \<^verbatim>\<open>bitrix.create_task\<close>, by its keyword arguments, and the reply handling
  of \<^verbatim>\<open>BitrixClient.call\<close> followed by \<^verbatim>\<open>BitrixClient.create_task\<close>. The payload is
  again given by what the code observes of it: the key \<^verbatim>\<open>"error"\<close>, the value of
  \<^verbatim>\<open>int(resp["result"]["task"]["id"])\<close> and of \<^verbatim>\<open>int(resp["result"]["id"])\<close> when they
  do not raise, and \<^verbatim>\<open>str(resp)\<close>.
\<close>

record create_call =
  ct_title :: string
  ct_description :: string
  ct_responsible_id :: int
  ct_group_id :: "int option"
  ct_priority :: "int option"
  ct_created_by :: "int option"
  ct_webdav_file_ids :: "int list"

record task_payload =
  tp_error :: "(string \<times> string option) option"
  tp_task_id :: "int option"
  tp_result_id :: "int option"
  tp_text :: string

datatype task_reply =
    TaskNoReply string
  | TaskNonJson string string
  | TaskJson task_payload

definition create_task_result :: "task_reply \<Rightarrow> exc + int" where
  "create_task_result r =
     (case r of
        TaskNoReply why \<Rightarrow> Inl (TransportError why)
      | TaskNonJson status_code body \<Rightarrow>
          Inl (BitrixError (''Bitrix returned non-JSON response (HTTP '' @ status_code @ '')'') body)
      | TaskJson p \<Rightarrow>
          (case tp_error p of
             Some (err, description) \<Rightarrow> Inl (BitrixError err (or_empty description))
           | None \<Rightarrow>
               (case tp_task_id p of
                  Some task_id \<Rightarrow> Inr task_id
                | None \<Rightarrow>
                    (case tp_result_id p of
                       Some task_id \<Rightarrow> Inr task_id
                     | None \<Rightarrow>
                         Inl (BitrixError ''Cannot parse task id from Bitrix response''
                               (tp_text p))))))"

text \<open>
  The ticketing collaborator: \<open>tasks k c\<close> is the outcome of the call \<open>c\<close> when it is
  the \<open>k\<close>-th call of one confirm event (counted from 0).
\<close>

type_synonym ticketing = "nat \<Rightarrow> create_call \<Rightarrow> exc + int"

text \<open>
  The \<^verbatim>\<open>try\<close> statement around \<^verbatim>\<open>bitrix.create_task\<close> in \<^verbatim>\<open>cb_confirm_create\<close>:
  \<^verbatim>\<open>except BitrixError\<close> makes a second call with \<^verbatim>\<open>created_by=None\<close>, whose every
  exception ends the submission; \<^verbatim>\<open>except Exception\<close> ends it at once. The result is
  the task id, if any, and the calls made, in order.
\<close>

definition create_with_fallback :: "ticketing \<Rightarrow> create_call \<Rightarrow> int option \<times> create_call list" where
  "create_with_fallback tasks c =
     (case tasks 0 c of
        Inr task_id \<Rightarrow> (Some task_id, [c])
      | Inl e \<Rightarrow>
          (case e of
             BitrixError message details \<Rightarrow>
               (let c' = c\<lparr>ct_created_by := None\<rparr>
                in case tasks 1 c' of
                     Inr task_id \<Rightarrow> (Some task_id, [c, c'])
                   | Inl e' \<Rightarrow> (None, [c, c']))
           | TransportError why \<Rightarrow> (None, [c])
           | OtherError why \<Rightarrow> (None, [c])))"

section \<open>Session data, events and effects\<close>

text \<open>
  \<^verbatim>\<open>context.user_data\<close>, the per-user dictionary, by the keys the handlers use; an
  absent key is \<open>None\<close>. \<^verbatim>\<open>user_data.clear()\<close> leaves \<open>no_user_data\<close>.
\<close>

record user_data =
  ud_ticket_id :: "string option"
  ud_files :: "saved_file list option"
  ud_title :: "string option"
  ud_description :: "string option"
  ud_menu_shown :: "bool option"
  ud_bitrix_user_id :: "int option"

definition no_user_data :: user_data where
  "no_user_data =
     \<lparr>ud_ticket_id = None, ud_files = None, ud_title = None, ud_description = None,
      ud_menu_shown = None, ud_bitrix_user_id = None\<rparr>"

text \<open>\<^verbatim>\<open>context.user_data.get("files", [])\<close>.\<close>

definition get_files :: "user_data \<Rightarrow> saved_file list" where
  "get_files ud = (case ud_files ud of None \<Rightarrow> [] | Some fs \<Rightarrow> fs)"

text \<open>The states of the task conversation; \<open>END\<close> is \<^verbatim>\<open>ConversationHandler.END\<close>.\<close>

datatype conv_state = WAIT_TITLE | WAIT_DESCRIPTION | WAIT_ATTACHMENTS | CONFIRM | END

text \<open>The incoming message of an attachment or text event.\<close>

record photo_size =
  ph_file_id :: string
  ph_file_unique_id :: string
  ph_file_size :: "int option"

record document =
  doc_file_id :: string
  doc_file_unique_id :: string
  doc_file_name :: "string option"
  doc_file_size :: "int option"

record message =
  msg_text :: "string option"
  msg_photo :: "photo_size list"
  msg_document :: "document option"

text \<open>
  The texts sent to the user, one constructor per \<^verbatim>\<open>reply_text\<close> of the task
  conversation, with the values interpolated into it.
\<close>

datatype reply =
    SessionNotFound
  | AttachmentLimit
  | FileTooLarge
  | SavedPhoto string
  | SavedDocument string
  | NotAnAttachment
  | LinkRequired
  | AccessDenied
  | AskTitle
  | TitleEmpty
  | AskDescription
  | DescriptionEmpty
  | AskAttachments
  | ReviewPrompt string nat
  | Cancelled
  | MissingData
  | LinkRequiredForTask
  | UploadingAttachments nat
  | AllUploadsFailed "string list"
  | SomeUploadsFailed "string list"
  | CreatingTask
  | TaskNotCreated
  | TaskCreated int string nat "string list"

text \<open>
  What a handler does besides changing \<^verbatim>\<open>user_data\<close>, in order: answering the callback
  query, replying, the chat action, the identity-link lookup, fetching and writing an
  attachment to the staging area, the calls to the storage collaborator (per file) and
  the calls to the ticketing collaborator.
\<close>

datatype effect =
    Answer
  | Reply reply
  | SendAction
  | LookupLink
  | GetFile string
  | Download string
  | DiskUploads "upload_call list list"
  | CreateTask create_call

section \<open>The handlers of the task conversation\<close>

text \<open>
  The fields of \<^verbatim>\<open>Settings\<close> the handlers read.
\<close>

record settings =
  allowed_tg_users :: "int list"
  upload_dir :: string
  bitrix_disk_folder_id :: int
  bitrix_upload_max_attempts :: int
  bitrix_upload_parallelism :: int
  bitrix_default_responsible_id :: int
  bitrix_group_id :: "int option"
  bitrix_priority :: "int option"

text \<open>
  What one handler invocation reads besides \<^verbatim>\<open>user_data\<close> and the message: the
  settings, the user's id, the answer of \<^verbatim>\<open>_get_linked_bitrix_id\<close>, the value of
  \<^verbatim>\<open>make_ticket_id()\<close>, today's date as text, the text of
  \<^verbatim>\<open>build_initiator_block(update)\<close>, the two remote collaborators, and the path and
  link builders of the modules \<^verbatim>\<open>storage\<close> and \<^verbatim>\<open>utils\<close> and of \<^verbatim>\<open>_task_link\<close>, which
  are taken as functions.
\<close>

record ctx =
  cx_settings :: settings
  cx_tg_user_id :: int
  cx_linked_bitrix_id :: "int option"
  cx_ticket_id :: string
  cx_date_str :: string
  cx_initiator_block :: string
  cx_disk :: "nat \<Rightarrow> storage"
  cx_tasks :: ticketing
  cx_build_upload_dir :: "string \<Rightarrow> string \<Rightarrow> int \<Rightarrow> string \<Rightarrow> string"
  cx_make_local_path :: "string \<Rightarrow> string \<Rightarrow> string"
  cx_safe_filename :: "string \<Rightarrow> string"
  cx_task_link :: "int \<Rightarrow> string"

type_synonym outcome = "conv_state \<times> user_data \<times> effect list"

text \<open>\<^verbatim>\<open>_is_allowed\<close>: an empty allow-list admits everybody.\<close>

definition is_allowed :: "settings \<Rightarrow> int \<Rightarrow> bool" where
  "is_allowed st tg_user_id =
     (if allowed_tg_users st = [] then True else tg_user_id \<in> set (allowed_tg_users st))"

text \<open>
  \<^verbatim>\<open>cmd_task\<close>, the entry point of the command and of the menu button: \<^verbatim>\<open>not bid\<close>
  holds for no link and for the id \<open>0\<close>; \<^verbatim>\<open>show_link_required\<close> looks the link up again.
\<close>

definition cmd_task :: "ctx \<Rightarrow> user_data \<Rightarrow> outcome" where
  "cmd_task cx ud =
     (if cx_linked_bitrix_id cx = None \<or> cx_linked_bitrix_id cx = Some 0
      then (END, ud, [LookupLink, LookupLink, Reply LinkRequired])
      else if \<not> is_allowed (cx_settings cx) (cx_tg_user_id cx)
      then (END, ud, [LookupLink, Reply AccessDenied])
      else (WAIT_TITLE,
            no_user_data\<lparr>ud_ticket_id := Some (cx_ticket_id cx), ud_files := Some []\<rparr>,
            [LookupLink, Reply AskTitle]))"

text \<open>\<^verbatim>\<open>cb_start_task\<close>, the entry point of the inline button: no link is looked up.\<close>

definition cb_start_task :: "ctx \<Rightarrow> user_data \<Rightarrow> outcome" where
  "cb_start_task cx ud =
     (WAIT_TITLE,
      no_user_data\<lparr>ud_ticket_id := Some (cx_ticket_id cx), ud_files := Some []\<rparr>,
      [Answer, Reply AskTitle])"

definition on_title :: "message \<Rightarrow> user_data \<Rightarrow> outcome" where
  "on_title m ud =
     (let title = strip (or_empty (msg_text m))
      in if title = [] then (WAIT_TITLE, ud, [Reply TitleEmpty])
         else (WAIT_DESCRIPTION, ud\<lparr>ud_title := Some title\<rparr>, [Reply AskDescription]))"

definition on_description :: "message \<Rightarrow> user_data \<Rightarrow> outcome" where
  "on_description m ud =
     (let desc = strip (or_empty (msg_text m))
      in if desc = [] then (WAIT_DESCRIPTION, ud, [Reply DescriptionEmpty])
         else (WAIT_ATTACHMENTS, ud\<lparr>ud_description := Some desc\<rparr>, [Reply AskAttachments]))"

text \<open>
  \<^verbatim>\<open>on_attachment\<close>. The checks come in the order of the source: the session
  (\<^verbatim>\<open>not ticket_id\<close> holds for an absent and for an empty id), the count, then for a
  photo (the last size of the list) or else a document the reported size. An accepted
  attachment is fetched, written to its local path and appended to \<^verbatim>\<open>files\<close>.
\<close>

definition on_attachment :: "ctx \<Rightarrow> message \<Rightarrow> user_data \<Rightarrow> outcome" where
  "on_attachment cx m ud =
     (case ud_ticket_id ud of
        None \<Rightarrow> (END, ud, [Reply SessionNotFound])
      | Some ticket_id \<Rightarrow>
          if ticket_id = [] then (END, ud, [Reply SessionNotFound])
          else
            (let dir = cx_build_upload_dir cx (upload_dir (cx_settings cx)) (cx_date_str cx)
                         (cx_tg_user_id cx) ticket_id;
                 saved = get_files ud
             in if length saved \<ge> MAX_ATTACHMENTS_PER_TASK
                then (WAIT_ATTACHMENTS, ud, [SendAction, Reply AttachmentLimit])
                else if msg_photo m \<noteq> [] then
                  (let photo = last (msg_photo m)
                   in if attachment_too_large (ph_file_size photo)
                      then (WAIT_ATTACHMENTS, ud, [SendAction, Reply FileTooLarge])
                      else
                        (let filename = ''photo_'' @ ph_file_unique_id photo @ ''.jpg'';
                             path = cx_make_local_path cx dir filename
                         in (WAIT_ATTACHMENTS,
                             ud\<lparr>ud_files := Some (saved @
                                  [\<lparr>original_name = Some filename, local_path = path\<rparr>])\<rparr>,
                             [SendAction, GetFile (ph_file_id photo), Download path,
                              Reply (SavedPhoto filename)])))
                else
                  (case msg_document m of
                     Some doc \<Rightarrow>
                       if attachment_too_large (doc_file_size doc)
                       then (WAIT_ATTACHMENTS, ud, [SendAction, Reply FileTooLarge])
                       else
                         (let original =
                                (if or_empty (doc_file_name doc) \<noteq> [] then or_empty (doc_file_name doc)
                                 else ''document_'' @ doc_file_unique_id doc);
                              filename = cx_safe_filename cx original;
                              path = cx_make_local_path cx dir filename
                          in (WAIT_ATTACHMENTS,
                              ud\<lparr>ud_files := Some (saved @
                                   [\<lparr>original_name = Some original, local_path = path\<rparr>])\<rparr>,
                              [SendAction, GetFile (doc_file_id doc), Download path,
                               Reply (SavedDocument original)]))
                   | None \<Rightarrow> (WAIT_ATTACHMENTS, ud, [SendAction, Reply NotAnAttachment]))))"

definition cb_attachments_done :: "user_data \<Rightarrow> outcome" where
  "cb_attachments_done ud =
     (CONFIRM, ud, [Answer, Reply (ReviewPrompt (or_empty (ud_title ud)) (length (get_files ud)))])"

definition cb_cancel_task :: "user_data \<Rightarrow> outcome" where
  "cb_cancel_task ud = (END, no_user_data, [Answer, Reply Cancelled])"

definition cmd_cancel :: "user_data \<Rightarrow> outcome" where
  "cmd_cancel ud = (END, no_user_data, [Reply Cancelled])"

section \<open>The confirm handler\<close>

text \<open>\<^verbatim>\<open>"\n".join(parts)\<close>.\<close>

fun join_lines :: "string list \<Rightarrow> string" where
  "join_lines [] = []"
| "join_lines [x] = x"
| "join_lines (x # y # ys) = x @ [CHR 0x0A] @ join_lines (y # ys)"

text \<open>\<^verbatim>\<open>build_attachments_block\<close> returns the empty text for every input.\<close>

definition build_attachments_block :: "saved_file list \<Rightarrow> string \<Rightarrow> string" where
  "build_attachments_block files upload_root = []"

definition build_task_description :: "string \<Rightarrow> string \<Rightarrow> string \<Rightarrow> string" where
  "build_task_description user_desc initiator_block attachments_block =
     (let parts = [strip user_desc, [], strip initiator_block];
          attachments = strip attachments_block;
          parts' = (if attachments \<noteq> [] then parts @ [[], attachments] else parts)
      in strip (join_lines parts'))"

text \<open>
  \<^verbatim>\<open>cb_confirm_create\<close>, in the order of the source: the callback is answered; title and
  description are read and trimmed and an empty one ends the session; the link is looked
  up and a missing one ends the session; the staged files, if any, are uploaded, and when
  none of them got an id the session ends; the task is created, with the fallback of
  \<^const>\<open>create_with_fallback\<close>; the outcome is reported. Every path clears
  \<^verbatim>\<open>user_data\<close> and returns \<open>END\<close>.
\<close>

definition cb_confirm_create :: "ctx \<Rightarrow> user_data \<Rightarrow> outcome" where
  "cb_confirm_create cx ud =
     (let st = cx_settings cx;
          title = strip (or_empty (ud_title ud));
          user_desc = strip (or_empty (ud_description ud));
          files = get_files ud
      in if title = [] \<or> user_desc = []
         then (END, no_user_data, [Answer, Reply MissingData])
         else
           (let attachments = build_attachments_block files (upload_dir st);
                full_desc = build_task_description user_desc (cx_initiator_block cx) attachments
            in case cx_linked_bitrix_id cx of
                 None \<Rightarrow> (END, no_user_data, [Answer, LookupLink, Reply LinkRequiredForTask])
               | Some created_by \<Rightarrow>
                   (let ((uploaded_ids, failed_files), calls) =
                          (if files \<noteq> []
                           then upload_files_to_bitrix_disk (cx_disk cx) (bitrix_disk_folder_id st)
                                  files (bitrix_upload_max_attempts st) (bitrix_upload_parallelism st)
                           else (([], []), []));
                        upload_effects =
                          (if files \<noteq> []
                           then [Reply (UploadingAttachments (length files)), DiskUploads calls]
                           else [])
                    in if files \<noteq> [] \<and> failed_files \<noteq> [] \<and> uploaded_ids = []
                       then (END, no_user_data,
                             [Answer, LookupLink] @ upload_effects @
                             [Reply (AllUploadsFailed failed_files)])
                       else
                         (let partial_effects =
                                (if files \<noteq> [] \<and> failed_files \<noteq> []
                                 then [Reply (SomeUploadsFailed failed_files)] else []);
                              c = \<lparr>ct_title = title, ct_description = full_desc,
                                   ct_responsible_id = bitrix_default_responsible_id st,
                                   ct_group_id = bitrix_group_id st,
                                   ct_priority = bitrix_priority st,
                                   ct_created_by = Some created_by,
                                   ct_webdav_file_ids = uploaded_ids\<rparr>;
                              (created, task_calls) = create_with_fallback (cx_tasks cx) c;
                              before = [Answer, LookupLink] @ upload_effects @ partial_effects @
                                       [Reply CreatingTask] @ map CreateTask task_calls
                          in case created of
                               None \<Rightarrow> (END, no_user_data, before @ [Reply TaskNotCreated])
                             | Some task_id \<Rightarrow>
                                 (END, no_user_data,
                                  before @ [Reply (TaskCreated task_id (cx_task_link cx task_id)
                                              (length uploaded_ids) failed_files)])))))"

section \<open>Sequences of events\<close>

text \<open>
  The handlers that write \<^verbatim>\<open>user_data\<close>, as the updates that reach them. Besides the
  task conversation these are \<^verbatim>\<open>hydrate_link\<close>, which stores a link that is not
  \<^verbatim>\<open>None\<close> or \<open>0\<close> under \<^verbatim>\<open>bitrix_user_id\<close>, and \<^verbatim>\<open>maybe_show_menu\<close> and
  \<^verbatim>\<open>cmd_mytasks\<close>, which set \<^verbatim>\<open>_menu_shown\<close>.
\<close>

datatype update =
    CmdTask
  | CbStartTask
  | OnTitle message
  | OnDescription message
  | OnAttachment message
  | CbAttachmentsDone
  | CbCancelTask
  | CmdCancel
  | CbConfirmCreate
  | HydrateLink
  | ShowMenu

definition hydrate_link :: "ctx \<Rightarrow> user_data \<Rightarrow> user_data" where
  "hydrate_link cx ud =
     (case cx_linked_bitrix_id cx of
        None \<Rightarrow> ud
      | Some bid \<Rightarrow> if bid = 0 then ud else ud\<lparr>ud_bitrix_user_id := Some bid\<rparr>)"

definition handle :: "ctx \<Rightarrow> update \<Rightarrow> user_data \<Rightarrow> user_data" where
  "handle cx u ud =
     (case u of
        CmdTask \<Rightarrow> fst (snd (cmd_task cx ud))
      | CbStartTask \<Rightarrow> fst (snd (cb_start_task cx ud))
      | OnTitle m \<Rightarrow> fst (snd (on_title m ud))
      | OnDescription m \<Rightarrow> fst (snd (on_description m ud))
      | OnAttachment m \<Rightarrow> fst (snd (on_attachment cx m ud))
      | CbAttachmentsDone \<Rightarrow> fst (snd (cb_attachments_done ud))
      | CbCancelTask \<Rightarrow> fst (snd (cb_cancel_task ud))
      | CmdCancel \<Rightarrow> fst (snd (cmd_cancel ud))
      | CbConfirmCreate \<Rightarrow> fst (snd (cb_confirm_create cx ud))
      | HydrateLink \<Rightarrow> hydrate_link cx ud
      | ShowMenu \<Rightarrow> ud\<lparr>ud_menu_shown := Some True\<rparr>)"

text \<open>
  The session data after a sequence of updates, each with the context of its own
  handler invocation, processed one after the other.
\<close>

fun handle_all :: "(ctx \<times> update) list \<Rightarrow> user_data \<Rightarrow> user_data" where
  "handle_all [] ud = ud"
| "handle_all ((cx, u) # rest) ud = handle_all rest (handle cx u ud)"

section \<open>Notions used to state the properties\<close>

text \<open>
  The lower-cased text that precedes the payload in the classifier's haystack when the
  message is \<^verbatim>\<open>"Cannot parse disk file id from Bitrix response"\<close>.
\<close>

definition parse_failure_prefix :: string where
  "parse_failure_prefix = ''cannot parse disk file id from bitrix response ''"

text \<open>Whether a text, lower-cased, contains one of the classifier's markers.\<close>

definition has_marker :: "string \<Rightarrow> bool" where
  "has_marker t = list_ex (\<lambda>marker. sublist marker (lower t)) markers"

text \<open>The lower-cased text that precedes the status code of a reply that is no JSON.\<close>

definition non_json_prefix :: string where
  "non_json_prefix = ''bitrix returned non-json response (http ''"

definition is_digit :: "char \<Rightarrow> bool" where
  "is_digit c = (48 \<le> (of_char c :: nat) \<and> (of_char c :: nat) \<le> 57)"

text \<open>
  The replies that are a parse or shape mismatch: a reply that is no JSON, a JSON object
  with neither the key \<^verbatim>\<open>"error"\<close> nor a parsable \<^verbatim>\<open>result.ID\<close>, and every JSON reply
  that is no object.
\<close>

definition shape_mismatch :: "http_reply \<Rightarrow> bool" where
  "shape_mismatch r =
     (case r of
        NonJson status_code body \<Rightarrow> True
      | Json payload \<Rightarrow>
          (case payload of
             JsonObject p \<Rightarrow> p_error p = None \<and> p_result_id p = None
           | JsonArray has_error payload_text \<Rightarrow> True
           | JsonString s \<Rightarrow> True
           | JsonScalar payload_text \<Rightarrow> True)
      | NoReply why \<Rightarrow> False
      | Raised why \<Rightarrow> False)"

text \<open>
  When the failure of such a reply is retryable, in terms of the reply alone: for a reply
  that is no JSON, when the digits of the status code contain 502, 503 or 504 or the body
  has a marker; for a payload whose disk file id cannot be parsed, when the payload text
  has a marker; never for a payload on which the code raises \<^verbatim>\<open>TypeError\<close> or
  \<^verbatim>\<open>AttributeError\<close>.
\<close>

definition mismatch_retryable :: "http_reply \<Rightarrow> bool" where
  "mismatch_retryable r =
     (case r of
        NonJson status_code body \<Rightarrow>
          sublist ''502'' (str_nat status_code) \<or> sublist ''503'' (str_nat status_code)
          \<or> sublist ''504'' (str_nat status_code) \<or> has_marker body
      | Json payload \<Rightarrow>
          (case payload of
             JsonObject p \<Rightarrow> has_marker (p_text p)
           | JsonArray has_error payload_text \<Rightarrow> \<not> has_error \<and> has_marker payload_text
           | JsonString s \<Rightarrow> \<not> sublist ''error'' s \<and> has_marker s
           | JsonScalar payload_text \<Rightarrow> False)
      | NoReply why \<Rightarrow> False
      | Raised why \<Rightarrow> False)"

text \<open>The call \<^verbatim>\<open>_upload_one\<close> makes for a file at the attempt number \<open>attempt\<close>.\<close>

definition attempt_call :: "int \<Rightarrow> saved_file \<Rightarrow> int \<Rightarrow> int \<Rightarrow> upload_call" where
  "attempt_call folder_id sf max_attempts attempt =
     \<lparr>uc_folder_id = folder_id, uc_local_path = local_path sf,
      uc_filename = saved_file_label sf, uc_upload_attempt = attempt,
      uc_upload_max_attempts = max_attempts\<rparr>"

text \<open>
  The remote id obtained for the file at a position of the input, if any: the first
  component of what \<^verbatim>\<open>_upload_one\<close> returns for it.
\<close>

definition obtained_id :: "(nat \<Rightarrow> storage) \<Rightarrow> int \<Rightarrow> int \<Rightarrow> nat \<times> saved_file \<Rightarrow> int option" where
  "obtained_id remote folder_id max_attempts p =
     fst (fst (upload_one (remote (fst p)) folder_id max_attempts (snd p)))"

text \<open>
  The reported size of the blob \<^verbatim>\<open>on_attachment\<close> would stage: of the last photo size
  when the message has a photo, else of its document.
\<close>

definition incoming_size :: "message \<Rightarrow> int option" where
  "incoming_size m =
     (if msg_photo m \<noteq> [] then ph_file_size (last (msg_photo m))
      else (case msg_document m of None \<Rightarrow> None | Some doc \<Rightarrow> doc_file_size doc))"

text \<open>The number of staged files of a session.\<close>

definition staged_count :: "user_data \<Rightarrow> nat" where
  "staged_count ud = length (get_files ud)"

text \<open>Whether an effect is a call to one of the two remote collaborators.\<close>

fun is_remote_call :: "effect \<Rightarrow> bool" where
  "is_remote_call (DiskUploads calls) = True"
| "is_remote_call (CreateTask c) = True"
| "is_remote_call e = False"

text \<open>Whether an effect is a call to the ticketing collaborator.\<close>

fun is_create_task :: "effect \<Rightarrow> bool" where
  "is_create_task (CreateTask c) = True"
| "is_create_task e = False"

text \<open>Whether an effect fetches an attachment or writes it to the staging area.\<close>

fun is_staging_write :: "effect \<Rightarrow> bool" where
  "is_staging_write (GetFile file_id) = True"
| "is_staging_write (Download path) = True"
| "is_staging_write e = False"

text \<open>Concrete settings, contexts and sessions, for the examples.\<close>

definition example_settings :: settings where
  "example_settings =
     \<lparr>allowed_tg_users = [], upload_dir = ''/up'', bitrix_disk_folder_id = 7,
      bitrix_upload_max_attempts = 2, bitrix_upload_parallelism = 2,
      bitrix_default_responsible_id = 1, bitrix_group_id = None, bitrix_priority = None\<rparr>"

definition example_ctx :: "int option \<Rightarrow> (nat \<Rightarrow> storage) \<Rightarrow> ticketing \<Rightarrow> ctx" where
  "example_ctx linked disk tasks =
     \<lparr>cx_settings = example_settings, cx_tg_user_id = 100, cx_linked_bitrix_id = linked,
      cx_ticket_id = ''T1'', cx_date_str = ''2024-01-01'', cx_initiator_block = ''Telegram: @u'',
      cx_disk = disk, cx_tasks = tasks,
      cx_build_upload_dir = (\<lambda>root date_str uid ticket. root @ ''/'' @ date_str @ ''/'' @ ticket),
      cx_make_local_path = (\<lambda>dir name. dir @ ''/'' @ name),
      cx_safe_filename = (\<lambda>name. name),
      cx_task_link = (\<lambda>task_id. [])\<rparr>"

definition example_session :: "string option \<Rightarrow> saved_file list \<Rightarrow> user_data" where
  "example_session title files =
     \<lparr>ud_ticket_id = Some ''T1'', ud_files = Some files, ud_title = title,
      ud_description = Some ''D'', ud_menu_shown = None, ud_bitrix_user_id = None\<rparr>"

definition example_file :: "string \<Rightarrow> saved_file" where
  "example_file name = \<lparr>original_name = Some name, local_path = ''/up/'' @ name\<rparr>"

definition example_photo :: "int option \<Rightarrow> message" where
  "example_photo reported_size =
     \<lparr>msg_text = None,
      msg_photo = [\<lparr>ph_file_id = ''F1'', ph_file_unique_id = ''U1'', ph_file_size = reported_size\<rparr>],
      msg_document = None\<rparr>"

text \<open>A storage collaborator that refuses every call with a failure that is not retried.\<close>

definition disk_denied :: "nat \<Rightarrow> storage" where
  "disk_denied i c = Inl (BitrixError ''ACCESS_DENIED'' ''Access denied'')"

text \<open>A ticketing collaborator that is never reached in the examples that use it.\<close>

definition tasks_unreachable :: ticketing where
  "tasks_unreachable k c = Inl (OtherError ''unreachable'')"

text \<open>
  A ticketing collaborator whose first reply is a rate-limit rejection and whose second
  reply creates the task 77, both handled by \<^const>\<open>create_task_result\<close>.
\<close>

definition tasks_rate_limited_once :: ticketing where
  "tasks_rate_limited_once k c =
     create_task_result
       (if k = 0
        then TaskJson \<lparr>tp_error = Some (''QUERY_LIMIT_EXCEEDED'', Some ''Too many requests''),
                       tp_task_id = None, tp_result_id = None, tp_text = []\<rparr>
        else TaskJson \<lparr>tp_error = None, tp_task_id = Some 77, tp_result_id = None,
                       tp_text = []\<rparr>)"

section \<open>Size check\<close>

text \<open>
  C10. A reported size that is missing (\<^verbatim>\<open>None\<close>) or zero is never too large, and a
  reported size is too large exactly when it is strictly greater than
  \<open>20 * 1024 * 1024\<close> bytes.
\<close>

theorem attachment_too_large_spec:
  "attachment_too_large None = False
   \<and> attachment_too_large (Some 0) = False
   \<and> attachment_too_large (Some n) = (n > 20 * 1024 * 1024)"
  by (simp add: attachment_too_large_def MAX_ATTACHMENT_BYTES_def)

section \<open>The error classifier on parse and shape mismatches\<close>

lemma lower_append: "lower (a @ b) = lower a @ lower b"
  by (simp add: lower_def)

lemma sublist_after_prefix:
  assumes inside: "\<not> sublist m c"
    and straddle: "list_all (\<lambda>k. \<not> suffix (take k m) c) [1..<Suc (length m)]"
  shows "sublist m (c @ t) \<longleftrightarrow> sublist m t"
proof
  assume "sublist m (c @ t)"
  then consider "sublist m c" | "sublist m t"
    | xs1 xs2 where "m = xs1 @ xs2" "suffix xs1 c" "prefix xs2 t"
    by (auto simp: sublist_append)
  then show "sublist m t"
  proof cases
    case 1
    with inside show ?thesis by simp
  next
    case 2
    then show ?thesis .
  next
    case 3
    show ?thesis
    proof (cases "xs1 = []")
      case True
      with 3 show ?thesis by simp
    next
      case False
      then have k: "1 \<le> length xs1" "length xs1 \<le> length m"
        using 3(1) by (auto simp: Suc_le_eq)
      have "take (length xs1) m = xs1" using 3(1) by simp
      moreover have "\<not> suffix (take (length xs1) m) c"
        using straddle k by (auto simp: list_all_iff)
      ultimately show ?thesis using 3(2) by simp
    qed
  qed
next
  assume "sublist m t"
  then show "sublist m (c @ t)" by (simp add: sublist_append)
qed

lemma lower_parse_failure_message:
  "lower (''Cannot parse disk file id from Bitrix response'' @ '' '') = parse_failure_prefix"
  unfolding parse_failure_prefix_def by code_simp

lemma markers_not_in_prefix:
  "list_all (\<lambda>m. \<not> sublist m parse_failure_prefix) markers"
  by code_simp

lemma markers_not_straddling:
  "list_all (\<lambda>m. list_all (\<lambda>k. \<not> suffix (take k m) parse_failure_prefix) [1..<Suc (length m)]) markers"
  by code_simp

lemma marker_in_parse_failure_text:
  assumes "m \<in> set markers"
  shows "sublist m (parse_failure_prefix @ t) \<longleftrightarrow> sublist m t"
  using assms markers_not_in_prefix markers_not_straddling
  by (intro sublist_after_prefix) (auto simp: list_all_iff)

lemma parse_failure_classified:
  "is_retryable_upload_error (BitrixError ''Cannot parse disk file id from Bitrix response'' t)
     = list_ex (\<lambda>marker. sublist marker (lower t)) markers"
proof -
  have "lower (''Cannot parse disk file id from Bitrix response'' @ '' '' @ t)
          = parse_failure_prefix @ lower t"
    using lower_parse_failure_message lower_append[of "''Cannot parse disk file id from Bitrix response'' @ '' ''" t]
    by simp
  then show ?thesis
    by (simp add: is_retryable_upload_error_def list_ex_iff marker_in_parse_failure_text)
qed


lemma digit_char_is_digit: "d < 10 \<Longrightarrow> is_digit (digit_char d)"
  by (simp add: is_digit_def digit_char_def)

lemma str_nat_digits: "\<forall>c \<in> set (str_nat n). is_digit c"
proof (induction n rule: str_nat.induct)
  case (1 n)
  show ?case
  proof (cases "n < 10")
    case True
    then show ?thesis
      by (subst str_nat.simps) (simp add: digit_char_is_digit)
  next
    case False
    then show ?thesis
      using "1.IH" by (subst str_nat.simps) (auto simp: digit_char_is_digit)
  qed
qed

lemma str_nat_nonempty: "str_nat n \<noteq> []"
  by (subst str_nat.simps) simp

lemma lower_char_digit: "is_digit c \<Longrightarrow> lower_char c = c"
  by (simp add: is_digit_def lower_char_def Let_def)

lemma lower_str_nat: "lower (str_nat n) = str_nat n"
  using str_nat_digits[of n] by (simp add: lower_def lower_char_digit map_idI)

lemma sublist_split:
  assumes occ: "sublist m (a @ b)"
    and cut: "\<And>xs1 xs2. m = xs1 @ xs2 \<Longrightarrow> xs1 \<noteq> [] \<Longrightarrow> xs2 \<noteq> [] \<Longrightarrow>
                 suffix xs1 a \<Longrightarrow> prefix xs2 b \<Longrightarrow> False"
  shows "sublist m a \<or> sublist m b"
proof -
  from occ consider "sublist m a" | "sublist m b"
    | xs1 xs2 where "m = xs1 @ xs2" "suffix xs1 a" "prefix xs2 b"
    by (auto simp: sublist_append)
  then show ?thesis
  proof cases
    case 3
    show ?thesis
    proof (cases "xs1 = []")
      case True
      with 3 show ?thesis by simp
    next
      case False
      show ?thesis
      proof (cases "xs2 = []")
        case True
        with 3 show ?thesis by simp
      next
        case nonempty: False
        from cut[OF 3(1) False nonempty 3(2) 3(3)] show ?thesis ..
      qed
    qed
  qed auto
qed

lemma suffix_last: "suffix xs a \<Longrightarrow> xs \<noteq> [] \<Longrightarrow> last xs = last a"
  by (auto simp: suffix_def)

lemma prefix_hd: "prefix xs b \<Longrightarrow> xs \<noteq> [] \<Longrightarrow> hd xs = hd b"
  by (auto simp: prefix_def)

lemma markers_not_in_non_json_prefix:
  "list_all (\<lambda>m. \<not> sublist m non_json_prefix) markers"
  by code_simp

lemma markers_space_or_digit:
  "list_all (\<lambda>m. \<not> (CHR '' '' \<in> set m \<and> list_ex is_digit m)) markers"
  by code_simp

lemma markers_no_paren:
  "list_all (\<lambda>m. CHR '')'' \<notin> set m) markers"
  by code_simp

lemma markers_start:
  "list_all (\<lambda>m. m \<noteq> [] \<and> hd m \<noteq> CHR '' '') markers"
  by code_simp

lemma markers_digits_only:
  "list_all (\<lambda>m. m = ''502'' \<or> m = ''503'' \<or> m = ''504'' \<or> list_ex (\<lambda>c. \<not> is_digit c) m) markers"
  by code_simp


lemma marker_in_non_json:
  assumes m: "m \<in> set markers"
    and digits: "\<forall>c \<in> set S. is_digit c" and nonempty: "S \<noteq> []"
  shows "sublist m (non_json_prefix @ S @ '') '' @ B) \<longleftrightarrow> sublist m S \<or> sublist m B"
proof
  have f1: "\<not> sublist m non_json_prefix"
    using m markers_not_in_non_json_prefix by (auto simp: list_all_iff)
  have f2: "\<not> (CHR '' '' \<in> set m \<and> (\<exists>c \<in> set m. is_digit c))"
    using m markers_space_or_digit by (auto simp: list_all_iff list_ex_iff)
  have f3: "CHR '')'' \<notin> set m"
    using m markers_no_paren by (auto simp: list_all_iff)
  have f4: "m \<noteq> []" "hd m \<noteq> CHR '' ''"
    using m markers_start by (auto simp: list_all_iff)
  assume "sublist m (non_json_prefix @ S @ '') '' @ B)"
  then have "sublist m non_json_prefix \<or> sublist m (S @ '') '' @ B)"
  proof (rule sublist_split)
    fix xs1 xs2
    assume split: "m = xs1 @ xs2" "xs1 \<noteq> []" "xs2 \<noteq> []"
      and "suffix xs1 non_json_prefix" "prefix xs2 (S @ '') '' @ B)"
    then have "last xs1 = CHR '' ''" "hd xs2 = hd S"
      using suffix_last[of xs1 non_json_prefix] prefix_hd[of xs2 "S @ '') '' @ B"] nonempty
      by (simp_all add: non_json_prefix_def)
    moreover have "last xs1 \<in> set m" "hd xs2 \<in> set m"
      using split by simp_all
    moreover have "is_digit (hd S)"
      using digits nonempty by simp
    ultimately show False
      using f2 by auto
  qed
  with f1 have "sublist m (S @ '') '' @ B)" by simp
  then have "sublist m S \<or> sublist m ('') '' @ B)"
  proof (rule sublist_split)
    fix xs1 xs2
    assume split: "m = xs1 @ xs2" "xs1 \<noteq> []" "xs2 \<noteq> []"
      and "prefix xs2 ('') '' @ B)"
    then have "hd xs2 = CHR '')''"
      using prefix_hd[of xs2 "'') '' @ B"] by simp
    moreover have "hd xs2 \<in> set m"
      using split by simp
    ultimately show False
      using f3 by simp
  qed
  moreover have "sublist m B" if "sublist m ('') '' @ B)"
  proof -
    from that have "sublist m '') '' \<or> sublist m B"
    proof (rule sublist_split)
      fix xs1 xs2
      assume split: "m = xs1 @ xs2" "xs1 \<noteq> []" and suf: "suffix xs1 '') ''"
      from suf have "set xs1 \<subseteq> {CHR '')'', CHR '' ''}"
        using set_mono_suffix[of xs1 "'') ''"] by auto
      moreover have "hd m \<in> set xs1"
        using split by simp
      ultimately show False
        using f3 f4 split by (metis hd_in_set insertE singletonD subsetD)
    qed
    moreover have "\<not> sublist m '') ''"
    proof
      assume "sublist m '') ''"
      then have "set m \<subseteq> {CHR '')'', CHR '' ''}"
        using set_mono_sublist[of m "'') ''"] by auto
      then show False
        using f3 f4 by (metis hd_in_set insertE singletonD subsetD)
    qed
    ultimately show ?thesis by simp
  qed
  ultimately show "sublist m S \<or> sublist m B" by blast
next
  assume "sublist m S \<or> sublist m B"
  then show "sublist m (non_json_prefix @ S @ '') '' @ B)"
  proof
    assume "sublist m S"
    then obtain ps ss where "S = ps @ m @ ss"
      by (auto simp: sublist_def)
    then have "non_json_prefix @ S @ '') '' @ B = (non_json_prefix @ ps) @ m @ (ss @ '') '' @ B)"
      by simp
    then show ?thesis
      unfolding sublist_def by blast
  next
    assume "sublist m B"
    then obtain ps ss where "B = ps @ m @ ss"
      by (auto simp: sublist_def)
    then have "non_json_prefix @ S @ '') '' @ B = (non_json_prefix @ S @ '') '' @ ps) @ m @ ss"
      by simp
    then show ?thesis
      unfolding sublist_def by blast
  qed
qed

lemma marker_in_digits:
  assumes digits: "\<forall>c \<in> set S. is_digit c"
  shows "list_ex (\<lambda>m. sublist m S) markers
           \<longleftrightarrow> sublist ''502'' S \<or> sublist ''503'' S \<or> sublist ''504'' S"
proof
  assume "list_ex (\<lambda>m. sublist m S) markers"
  then obtain m where m: "m \<in> set markers" "sublist m S"
    by (auto simp: list_ex_iff)
  from m(2) digits have "\<forall>c \<in> set m. is_digit c"
    using set_mono_sublist[of m S] by auto
  then have "\<not> list_ex (\<lambda>c. \<not> is_digit c) m"
    by (simp add: list_ex_iff)
  with m(1) markers_digits_only have "m = ''502'' \<or> m = ''503'' \<or> m = ''504''"
    by (auto simp: list_all_iff)
  with m(2) show "sublist ''502'' S \<or> sublist ''503'' S \<or> sublist ''504'' S"
    by auto
next
  assume "sublist ''502'' S \<or> sublist ''503'' S \<or> sublist ''504'' S"
  then show "list_ex (\<lambda>m. sublist m S) markers"
    by (auto simp: list_ex_iff markers_def)
qed

lemma lower_non_json_message:
  "lower ''Bitrix returned non-JSON response (HTTP '' = non_json_prefix"
  unfolding non_json_prefix_def by code_simp

lemma lower_closing: "lower ('')'' @ '' '') = '') ''"
  by code_simp

lemma non_json_classified:
  "is_retryable_upload_error
     (BitrixError (''Bitrix returned non-JSON response (HTTP '' @ str_nat n @ '')'') body)
     = (sublist ''502'' (str_nat n) \<or> sublist ''503'' (str_nat n) \<or> sublist ''504'' (str_nat n)
        \<or> has_marker body)"
proof -
  have hay: "lower ((''Bitrix returned non-JSON response (HTTP '' @ str_nat n @ '')'') @ '' '' @ body)
          = non_json_prefix @ str_nat n @ '') '' @ lower body"
  proof -
    have "lower ((''Bitrix returned non-JSON response (HTTP '' @ str_nat n @ '')'') @ '' '' @ body)
            = lower ''Bitrix returned non-JSON response (HTTP '' @ lower (str_nat n)
              @ lower ('')'' @ '' '') @ lower body"
      by (simp only: lower_append append_assoc)
    then show ?thesis
      by (simp only: lower_non_json_message lower_str_nat lower_closing)
  qed
  have "is_retryable_upload_error
     (BitrixError (''Bitrix returned non-JSON response (HTTP '' @ str_nat n @ '')'') body)
     = (\<exists>m \<in> set markers. sublist m (non_json_prefix @ str_nat n @ '') '' @ lower body))"
    by (simp only: is_retryable_upload_error_def exc.case Let_def hay list_ex_iff)
  also have "\<dots> = (\<exists>m \<in> set markers. sublist m (str_nat n) \<or> sublist m (lower body))"
    using marker_in_non_json[OF _ str_nat_digits str_nat_nonempty] by blast
  also have "\<dots> = (list_ex (\<lambda>m. sublist m (str_nat n)) markers \<or> has_marker body)"
    by (auto simp: list_ex_iff has_marker_def)
  finally show ?thesis
    using marker_in_digits[OF str_nat_digits, of n] by simp
qed

lemma parse_failure_has_marker:
  "is_retryable_upload_error (BitrixError ''Cannot parse disk file id from Bitrix response'' t)
     = has_marker t"
  by (simp add: parse_failure_classified has_marker_def)

lemma terminal_failure_stops:
  assumes "attempt \<le> max_attempts"
    and "remote (attempt_call folder_id sf max_attempts attempt) = Inl e"
    and "\<not> is_retryable_upload_error e"
  shows "upload_attempts remote folder_id sf max_attempts attempt
           = ((None, Some (saved_file_label sf)), [attempt_call folder_id sf max_attempts attempt])"
  using assms
  by (subst upload_attempts.simps) (simp add: attempt_call_def Let_def)


lemma other_error_terminal: "is_retryable_upload_error (OtherError why) = False"
  by (simp add: is_retryable_upload_error_def)

lemma mismatch_failure:
  assumes "shape_mismatch r"
  shows "\<exists>e. upload_to_folder_result r = Inl e
           \<and> is_retryable_upload_error e = mismatch_retryable r
           \<and> (\<forall>p. r = Json (JsonObject p) \<longrightarrow>
                 e = BitrixError ''Cannot parse disk file id from Bitrix response'' (p_text p))"
proof (cases r)
  case (NonJson status_code body)
  let ?e = "BitrixError (''Bitrix returned non-JSON response (HTTP '' @ str_nat status_code @ '')'') body"
  have "upload_to_folder_result r = Inl ?e"
    by (simp only: NonJson upload_to_folder_result_def http_reply.case)
  moreover have "is_retryable_upload_error ?e = mismatch_retryable r"
    by (simp only: NonJson mismatch_retryable_def http_reply.case non_json_classified)
  moreover have "\<forall>p. r = Json (JsonObject p) \<longrightarrow>
                   ?e = BitrixError ''Cannot parse disk file id from Bitrix response'' (p_text p)"
    using NonJson by simp
  ultimately show ?thesis by blast
next
  case (Json payload)
  show ?thesis
  proof (cases payload)
    case (JsonObject p)
    with Json assms show ?thesis
      by (simp add: upload_to_folder_result_def mismatch_retryable_def shape_mismatch_def
            parse_failure_has_marker)
  next
    case (JsonArray has_error payload_text)
    with Json show ?thesis
      by (simp add: upload_to_folder_result_def mismatch_retryable_def
            parse_failure_has_marker other_error_terminal)
  next
    case (JsonString s)
    with Json show ?thesis
      by (simp add: upload_to_folder_result_def mismatch_retryable_def
            parse_failure_has_marker other_error_terminal)
  next
    case (JsonScalar payload_text)
    with Json show ?thesis
      by (simp add: upload_to_folder_result_def mismatch_retryable_def
            other_error_terminal)
  qed
qed (use assms in \<open>simp_all add: shape_mismatch_def\<close>)

text \<open>
  C2, as the claim states it, fails: a reply whose payload has no \<^verbatim>\<open>"error"\<close> key and no
  parsable \<^verbatim>\<open>result.ID\<close> is a shape mismatch, it raises the parse failure with the payload
  text as details, and the classifier marks that failure retryable when the text holds a
  marker.
\<close>

theorem parse_failure_retryable_counterexample:
  "shape_mismatch
     (Json (JsonObject \<lparr>p_error = None, p_result_id = None,
                        p_text = ''{'result': {'NAME': 'network.png'}}''\<rparr>))
   \<and> upload_to_folder_result
        (Json (JsonObject \<lparr>p_error = None, p_result_id = None,
                           p_text = ''{'result': {'NAME': 'network.png'}}''\<rparr>))
      = Inl (BitrixError ''Cannot parse disk file id from Bitrix response''
              ''{'result': {'NAME': 'network.png'}}'')
   \<and> is_retryable_upload_error
        (BitrixError ''Cannot parse disk file id from Bitrix response''
          ''{'result': {'NAME': 'network.png'}}'') = True"
  by code_simp

text \<open>
  C2, amended. For every reply that is a parse or shape mismatch the handling fails, and
  the classifier returns false for the failure unless a marker matches its text: for the
  failure raised when the disk file id cannot be parsed, whose details are the payload
  text, it returns false exactly when the lower-cased payload text holds no marker; for a
  reply that is no JSON, exactly when the digits of the status code hold none of 502, 503
  and 504 and the lower-cased body holds no marker; for a JSON reply on which the code
  raises \<^verbatim>\<open>TypeError\<close> or \<^verbatim>\<open>AttributeError\<close>, always. A failure for which it returns
  false ends the attempts for the file: it is not retried.
\<close>

theorem shape_mismatch_classified:
  assumes "shape_mismatch r"
  shows "\<exists>e. upload_to_folder_result r = Inl e
           \<and> is_retryable_upload_error e = mismatch_retryable r
           \<and> (\<forall>p. r = Json (JsonObject p) \<longrightarrow>
                 e = BitrixError ''Cannot parse disk file id from Bitrix response'' (p_text p))
           \<and> (\<not> mismatch_retryable r \<and> attempt \<le> max_attempts
                \<and> remote (attempt_call folder_id sf max_attempts attempt) = upload_to_folder_result r
               \<longrightarrow> upload_attempts remote folder_id sf max_attempts attempt
                     = ((None, Some (saved_file_label sf)),
                        [attempt_call folder_id sf max_attempts attempt]))"
proof -
  from mismatch_failure[OF assms] obtain e where e:
    "upload_to_folder_result r = Inl e"
    "is_retryable_upload_error e = mismatch_retryable r"
    "\<forall>p. r = Json (JsonObject p) \<longrightarrow>
       e = BitrixError ''Cannot parse disk file id from Bitrix response'' (p_text p)"
    by blast
  have "upload_attempts remote folder_id sf max_attempts attempt
          = ((None, Some (saved_file_label sf)), [attempt_call folder_id sf max_attempts attempt])"
    if "\<not> mismatch_retryable r" "attempt \<le> max_attempts"
      "remote (attempt_call folder_id sf max_attempts attempt) = upload_to_folder_result r"
    using that e(1,2) by (intro terminal_failure_stops[where e = e]) simp_all
  with e show ?thesis by blast
qed

theorem shape_mismatch_classified_witness:
  "shape_mismatch
     (Json (JsonObject \<lparr>p_error = None, p_result_id = None, p_text = ''{'result': {}}''\<rparr>))
   \<and> upload_to_folder_result
        (Json (JsonObject \<lparr>p_error = None, p_result_id = None, p_text = ''{'result': {}}''\<rparr>))
      = Inl (BitrixError ''Cannot parse disk file id from Bitrix response'' ''{'result': {}}'')
   \<and> is_retryable_upload_error
        (BitrixError ''Cannot parse disk file id from Bitrix response'' ''{'result': {}}'') = False
   \<and> (1::int) \<le> 2
   \<and> upload_attempts
        (\<lambda>c. upload_to_folder_result
           (Json (JsonObject \<lparr>p_error = None, p_result_id = None, p_text = ''{'result': {}}''\<rparr>)))
        7 (example_file ''a.png'') 2 1
      = ((None, Some (saved_file_label (example_file ''a.png''))),
         [attempt_call 7 (example_file ''a.png'') 2 1])"
proof -
  let ?r = "Json (JsonObject \<lparr>p_error = None, p_result_id = None, p_text = ''{'result': {}}''\<rparr>)"
  have mismatch: "shape_mismatch ?r"
    by code_simp
  have terminal: "\<not> mismatch_retryable ?r"
    by code_simp
  have failure: "upload_to_folder_result ?r
      = Inl (BitrixError ''Cannot parse disk file id from Bitrix response'' ''{'result': {}}'')"
    by code_simp
  from shape_mismatch_classified
         [OF mismatch, of 1 2 "\<lambda>c. upload_to_folder_result ?r" 7 "example_file ''a.png''"]
  show ?thesis
    using mismatch terminal failure by auto
qed

text \<open>
  A JSON number as reply raises \<^verbatim>\<open>TypeError\<close>, which is terminal whatever its digits;
  a reply that is no JSON is retryable with the status 502 and terminal with the status
  200 and a body without marker.
\<close>

lemma shape_mismatch_examples:
  "upload_to_folder_result (Json (JsonScalar ''502'')) = Inl (OtherError ''TypeError'')
   \<and> is_retryable_upload_error (OtherError ''TypeError'') = False
   \<and> mismatch_retryable (NonJson 502 ''Bad Gateway'') = True
   \<and> mismatch_retryable (NonJson 200 ''<html></html>'') = False"
  by code_simp

section \<open>The upload orchestrator\<close>

lemma saved_file_label_nonempty: "saved_file_label sf \<noteq> []"
  by (simp add: saved_file_label_def Let_def)

lemma upload_attempts_all_retryable:
  assumes fails: "\<And>c. \<exists>e. remote c = Inl e \<and> is_retryable_upload_error e"
  shows "upload_attempts remote folder_id sf max_attempts attempt =
           ((None, Some (saved_file_label sf)),
            map (\<lambda>k. \<lparr>uc_folder_id = folder_id, uc_local_path = local_path sf,
                       uc_filename = saved_file_label sf, uc_upload_attempt = k,
                       uc_upload_max_attempts = max_attempts\<rparr>) [attempt..max_attempts])"
  using fails
proof (induction remote folder_id sf max_attempts attempt rule: upload_attempts.induct)
  case (1 remote folder_id sf max_attempts attempt)
  let ?c = "\<lparr>uc_folder_id = folder_id, uc_local_path = local_path sf,
             uc_filename = saved_file_label sf, uc_upload_attempt = attempt,
             uc_upload_max_attempts = max_attempts\<rparr>"
  obtain e where e: "remote ?c = Inl e" "is_retryable_upload_error e"
    using "1.prems" by blast
  consider "attempt > max_attempts" | "attempt = max_attempts" | "attempt < max_attempts"
    by linarith
  then show ?case
  proof cases
    case 1
    then show ?thesis
      by (subst upload_attempts.simps) (simp add: Let_def)
  next
    case 2
    then show ?thesis
      using e by (subst upload_attempts.simps) (simp add: Let_def)
  next
    case 3
    have ih: "upload_attempts remote folder_id sf max_attempts (attempt + 1) =
           ((None, Some (saved_file_label sf)),
            map (\<lambda>k. \<lparr>uc_folder_id = folder_id, uc_local_path = local_path sf,
                       uc_filename = saved_file_label sf, uc_upload_attempt = k,
                       uc_upload_max_attempts = max_attempts\<rparr>) [attempt + 1..max_attempts])"
      using "1.IH"[OF refl _ refl e(1)] 3 e(2) "1.prems" by simp
    have "[attempt..max_attempts] = attempt # [attempt + 1..max_attempts]"
      using 3 by (simp add: upto_rec1)
    then show ?thesis
      using 3 e ih by (subst upload_attempts.simps) (simp add: Let_def)
  qed
qed

lemma aggregate_shape:
  assumes "\<forall>r \<in> set rs. (\<exists>i. r = (Some i, None)) \<or> (\<exists>n. n \<noteq> [] \<and> r = (None, Some n))"
  shows "aggregate rs = (List.map_filter fst rs, map (\<lambda>r. the (snd r)) (filter (\<lambda>r. fst r = None) rs))"
  using assms
  by (induction rs) (auto simp: List.map_filter_simps split: prod.splits)

lemma aggregate_length:
  assumes "\<forall>r \<in> set rs. (\<exists>i. r = (Some i, None)) \<or> (\<exists>n. n \<noteq> [] \<and> r = (None, Some n))"
  shows "length (fst (aggregate rs)) + length (snd (aggregate rs)) = length rs"
  using assms
  by (induction rs) (auto split: prod.splits)


lemma upload_attempts_shape:
  "(\<exists>file_id. fst (upload_attempts remote folder_id sf max_attempts attempt) = (Some file_id, None))
   \<or> fst (upload_attempts remote folder_id sf max_attempts attempt) = (None, Some (saved_file_label sf))"
proof (induction remote folder_id sf max_attempts attempt rule: upload_attempts.induct)
  case (1 remote folder_id sf max_attempts attempt)
  show ?case
    using "1.IH"
    by (subst (1 2) upload_attempts.simps)
       (auto simp: Let_def split: sum.splits prod.splits)
qed

lemma map_enumerate_snd: "map (\<lambda>(i, x). g x) (enumerate n xs) = map g xs"
  by (induction xs arbitrary: n) auto

lemma upload_results_shape:
  "\<forall>r \<in> set (map (\<lambda>(i, sf). fst (upload_one (remote i) folder_id max_attempts sf)) (enumerate n files)).
      (\<exists>i. r = (Some i, None)) \<or> (\<exists>name. name \<noteq> [] \<and> r = (None, Some name))"
proof
  fix r
  assume "r \<in> set (map (\<lambda>(i, sf). fst (upload_one (remote i) folder_id max_attempts sf)) (enumerate n files))"
  then obtain i sf where r: "r = fst (upload_attempts (remote i) folder_id sf max_attempts 1)"
    by (auto simp: upload_one_def)
  from upload_attempts_shape[of "remote i" folder_id sf max_attempts 1] r
  show "(\<exists>i. r = (Some i, None)) \<or> (\<exists>name. name \<noteq> [] \<and> r = (None, Some name))"
    using saved_file_label_nonempty[of sf] by auto
qed

lemma failed_name:
  assumes "obtained_id remote folder_id max_attempts p = None"
  shows "snd (fst (upload_one (remote (fst p)) folder_id max_attempts (snd p))) = Some (saved_file_label (snd p))"
proof -
  from upload_attempts_shape[of "remote (fst p)" folder_id "snd p" max_attempts 1]
  show ?thesis
  proof
    assume "\<exists>file_id. fst (upload_attempts (remote (fst p)) folder_id (snd p) max_attempts 1) = (Some file_id, None)"
    with assms show ?thesis by (auto simp: obtained_id_def upload_one_def)
  next
    assume "fst (upload_attempts (remote (fst p)) folder_id (snd p) max_attempts 1) = (None, Some (saved_file_label (snd p)))"
    then show ?thesis by (simp add: upload_one_def)
  qed
qed


text \<open>
  C4. The result partitions the input: the uploaded ids are the ids obtained, in input
  order; the failed names are the display names of the files without an id, in input
  order; together they are as many as the input files. For the empty input both are empty
  and no call is made to the collaborator.
\<close>

theorem upload_partition:
  "upload_files_to_bitrix_disk remote folder_id [] max_attempts par = (([], []), [])
   \<and> fst (fst (upload_files_to_bitrix_disk remote folder_id files max_attempts par))
        = List.map_filter (obtained_id remote folder_id max_attempts) (enumerate 0 files)
   \<and> snd (fst (upload_files_to_bitrix_disk remote folder_id files max_attempts par))
        = map (\<lambda>p. saved_file_label (snd p))
            (filter (\<lambda>p. obtained_id remote folder_id max_attempts p = None) (enumerate 0 files))
   \<and> length (fst (fst (upload_files_to_bitrix_disk remote folder_id files max_attempts par)))
       + length (snd (fst (upload_files_to_bitrix_disk remote folder_id files max_attempts par)))
       = length files"
proof -
  define f where "f = (\<lambda>p. fst (upload_one (remote (fst p)) folder_id max_attempts (snd p)))"
  define rs where "rs = map f (enumerate 0 files)"
  have f_alt: "(\<lambda>(i, sf). fst (upload_one (remote i) folder_id max_attempts sf)) = f"
    by (auto simp: f_def)
  have shape: "\<forall>r \<in> set rs. (\<exists>i. r = (Some i, None)) \<or> (\<exists>name. name \<noteq> [] \<and> r = (None, Some name))"
    using upload_results_shape[of remote folder_id max_attempts 0 files]
    unfolding rs_def f_alt .
  have agg: "aggregate rs = (List.map_filter fst rs, map (\<lambda>r. the (snd r)) (filter (\<lambda>r. fst r = None) rs))"
    using shape by (rule aggregate_shape)
  have empty: "upload_files_to_bitrix_disk remote folder_id [] max_attempts par = (([], []), [])"
    by (simp add: upload_files_to_bitrix_disk_def)
  have "fst \<circ> (\<lambda>(i, sf). upload_one (remote i) folder_id max_attempts sf) = f"
    by (auto simp: f_def fun_eq_iff)
  then have res: "fst (upload_files_to_bitrix_disk remote folder_id files max_attempts par) = aggregate rs"
    by (cases "files = []") (simp_all add: upload_files_to_bitrix_disk_def Let_def rs_def)
  have fo: "fst (f p) = obtained_id remote folder_id max_attempts p" for p
    by (simp add: f_def obtained_id_def)
  have up: "List.map_filter fst rs = List.map_filter (obtained_id remote folder_id max_attempts) (enumerate 0 files)"
    by (simp add: List.map_filter_def rs_def filter_map comp_def fo)
  have "filter (\<lambda>r. fst r = None) rs
          = map f (filter (\<lambda>p. obtained_id remote folder_id max_attempts p = None) (enumerate 0 files))"
    by (simp add: rs_def filter_map comp_def fo)
  then have "map (\<lambda>r. the (snd r)) (filter (\<lambda>r. fst r = None) rs)
          = map (\<lambda>p. the (snd (f p))) (filter (\<lambda>p. obtained_id remote folder_id max_attempts p = None) (enumerate 0 files))"
    by (simp add: comp_def)
  also have "\<dots> = map (\<lambda>p. saved_file_label (snd p))
                 (filter (\<lambda>p. obtained_id remote folder_id max_attempts p = None) (enumerate 0 files))"
    by (rule map_cong[OF refl]) (simp add: f_def failed_name)
  finally have fl: "map (\<lambda>r. the (snd r)) (filter (\<lambda>r. fst r = None) rs)
             = map (\<lambda>p. saved_file_label (snd p))
                 (filter (\<lambda>p. obtained_id remote folder_id max_attempts p = None) (enumerate 0 files))" .
  have len: "length (fst (aggregate rs)) + length (snd (aggregate rs)) = length files"
    using aggregate_length[OF shape] by (simp add: rs_def)
  show ?thesis
    using empty agg up fl len unfolding res by simp
qed


text \<open>
  C3. For a non-empty input and \<open>max_attempts \<ge> 1\<close>, when every call to the collaborator
  fails with a failure the classifier marks retryable, nothing is uploaded, the failed
  names are the display names of all files, and the calls made for each file are the
  attempts \<open>1\<close> to \<open>max_attempts\<close>, so exactly \<open>max_attempts\<close> of them.
\<close>

theorem all_retryable_failures:
  assumes "files \<noteq> []" and "1 \<le> max_attempts"
    and fails: "\<And>i c. \<exists>e. remote i c = Inl e \<and> is_retryable_upload_error e"
  shows "upload_files_to_bitrix_disk remote folder_id files max_attempts par =
           (([], map saved_file_label files),
            map (\<lambda>sf. map (\<lambda>k. \<lparr>uc_folder_id = folder_id, uc_local_path = local_path sf,
                       uc_filename = saved_file_label sf, uc_upload_attempt = k,
                       uc_upload_max_attempts = max_attempts\<rparr>) [1..max_attempts]) files)
         \<and> (\<forall>cs \<in> set (snd (upload_files_to_bitrix_disk remote folder_id files max_attempts par)).
               int (length cs) = max_attempts)"
proof -
  define calls where "calls = (\<lambda>sf. map (\<lambda>k. \<lparr>uc_folder_id = folder_id, uc_local_path = local_path sf,
                       uc_filename = saved_file_label sf, uc_upload_attempt = k,
                       uc_upload_max_attempts = max_attempts\<rparr>) [1..max_attempts])"
  have one: "upload_one (remote i) folder_id max_attempts sf = ((None, Some (saved_file_label sf)), calls sf)" for i sf
    unfolding upload_one_def calls_def using fails[of i] by (rule upload_attempts_all_retryable)
  have results: "map (\<lambda>(i, sf). upload_one (remote i) folder_id max_attempts sf) (enumerate 0 files)
                   = map (\<lambda>sf. ((None, Some (saved_file_label sf)), calls sf)) files"
    by (simp add: one map_enumerate_snd)
  have agg: "aggregate (map (\<lambda>sf. (None, Some (saved_file_label sf))) fs) = ([], map saved_file_label fs)" for fs
    by (induction fs) (simp_all add: saved_file_label_nonempty)
  have eq: "upload_files_to_bitrix_disk remote folder_id files max_attempts par =
           (([], map saved_file_label files), map calls files)"
    unfolding upload_files_to_bitrix_disk_def Let_def results
    using assms(1) by (simp add: comp_def agg)
  have "int (length (calls sf)) = max_attempts" for sf
    using assms(2) by (simp add: calls_def)
  then show ?thesis
    unfolding eq by (auto simp: calls_def)
qed


theorem all_retryable_failures_witness:
  "[\<lparr>original_name = Some ''a.png'', local_path = ''/up/a.png''\<rparr>] \<noteq> []
   \<and> (1::int) \<le> 2
   \<and> upload_files_to_bitrix_disk (\<lambda>i c. Inl (TransportError ''reset'')) 7
        [\<lparr>original_name = Some ''a.png'', local_path = ''/up/a.png''\<rparr>] 2 2
      = (([], [''a.png'']),
         [[\<lparr>uc_folder_id = 7, uc_local_path = ''/up/a.png'', uc_filename = ''a.png'',
            uc_upload_attempt = 1, uc_upload_max_attempts = 2\<rparr>,
           \<lparr>uc_folder_id = 7, uc_local_path = ''/up/a.png'', uc_filename = ''a.png'',
            uc_upload_attempt = 2, uc_upload_max_attempts = 2\<rparr>]])"
proof -
  have label: "saved_file_label \<lparr>original_name = Some ''a.png'', local_path = ''/up/a.png''\<rparr> = ''a.png''"
    by code_simp
  have attempts: "[1..2::int] = [1, 2]"
    by code_simp
  have fails: "\<exists>e. (Inl (TransportError ''reset'') :: exc + int) = Inl e \<and> is_retryable_upload_error e"
    by (simp add: is_retryable_upload_error_def)
  show ?thesis
    using all_retryable_failures
            [of "[\<lparr>original_name = Some ''a.png'', local_path = ''/up/a.png''\<rparr>]" 2
                "\<lambda>i c. Inl (TransportError ''reset'')" 7 2]
          fails
    by (simp add: label attempts)
qed

section \<open>The confirm handler\<close>

lemma confirm_unlinked:
  assumes "cx_linked_bitrix_id cx = None"
  shows "cb_confirm_create cx ud =
           (END, no_user_data,
            if strip (or_empty (ud_title ud)) = [] \<or> strip (or_empty (ud_description ud)) = []
            then [Answer, Reply MissingData]
            else [Answer, LookupLink, Reply LinkRequiredForTask])"
  using assms by (simp add: cb_confirm_create_def Let_def)

lemma confirm_clears:
  "fst (cb_confirm_create cx ud) = END \<and> fst (snd (cb_confirm_create cx ud)) = no_user_data"
  by (simp add: cb_confirm_create_def Let_def split: option.splits prod.splits)

text \<open>
  The calls of one submission: the fallback call follows the first one exactly when the
  first one raised a \<^verbatim>\<open>BitrixError\<close>, whatever its message; there is never a third call.
\<close>

lemma fallback_calls:
  "snd (create_with_fallback tasks c) =
     (case tasks 0 c of
        Inl (BitrixError message details) \<Rightarrow> [c, c\<lparr>ct_created_by := None\<rparr>]
      | _ \<Rightarrow> [c])"
  by (simp add: create_with_fallback_def Let_def split: sum.splits exc.splits)

text \<open>
  C1. The claim wants the call without the creator field only after a rejection that is
  about the creator field. Here the first call is refused for the rate limit
  (\<^verbatim>\<open>QUERY_LIMIT_EXCEEDED\<close>), and the handler still makes the second call without the
  creator and reports the task it created.
\<close>

theorem fallback_after_unrelated_rejection:
  "tasks_rate_limited_once 0
     \<lparr>ct_title = ''T'', ct_description = build_task_description ''D'' ''Telegram: @u'' [],
      ct_responsible_id = 1, ct_group_id = None, ct_priority = None,
      ct_created_by = Some 5, ct_webdav_file_ids = []\<rparr>
     = Inl (BitrixError ''QUERY_LIMIT_EXCEEDED'' ''Too many requests'')
   \<and> cb_confirm_create (example_ctx (Some 5) disk_denied tasks_rate_limited_once)
        (example_session (Some ''T'') [])
     = (END, no_user_data,
        [Answer, LookupLink, Reply CreatingTask,
         CreateTask \<lparr>ct_title = ''T'', ct_description = build_task_description ''D'' ''Telegram: @u'' [],
                     ct_responsible_id = 1, ct_group_id = None, ct_priority = None,
                     ct_created_by = Some 5, ct_webdav_file_ids = []\<rparr>,
         CreateTask \<lparr>ct_title = ''T'', ct_description = build_task_description ''D'' ''Telegram: @u'' [],
                     ct_responsible_id = 1, ct_group_id = None, ct_priority = None,
                     ct_created_by = None, ct_webdav_file_ids = []\<rparr>,
         Reply (TaskCreated 77 [] 0 [])])"
  by code_simp

text \<open>
  C8. A confirm event whose title or description is empty after trimming is rejected with
  the missing-data reply alone: the link is not looked up, nothing is uploaded, no task is
  created, and the session is cleared. This holds for every session data, whatever the
  earlier steps stored.
\<close>

theorem confirm_rejects_missing_data:
  assumes "strip (or_empty (ud_title ud)) = [] \<or> strip (or_empty (ud_description ud)) = []"
  shows "cb_confirm_create cx ud = (END, no_user_data, [Answer, Reply MissingData])
         \<and> list_ex is_remote_call (snd (snd (cb_confirm_create cx ud))) = False"
  using assms by (simp add: cb_confirm_create_def Let_def)

theorem confirm_rejects_missing_data_witness:
  "(strip (or_empty (ud_title (example_session (Some ''  '') [example_file ''a.png'']))) = []
    \<or> strip (or_empty (ud_description (example_session (Some ''  '') [example_file ''a.png'']))) = [])
   \<and> cb_confirm_create (example_ctx (Some 5) disk_denied tasks_unreachable)
        (example_session (Some ''  '') [example_file ''a.png''])
      = (END, no_user_data, [Answer, Reply MissingData])"
proof -
  have blank: "strip (or_empty (ud_title (example_session (Some ''  '') [example_file ''a.png'']))) = []"
    by code_simp
  show ?thesis
    using confirm_rejects_missing_data
            [of "example_session (Some ''  '') [example_file ''a.png'']"
                "example_ctx (Some 5) disk_denied tasks_unreachable"]
          blank
    by simp
qed

text \<open>
  C9, as the claim states it, fails: for a user without a link whose session has no title,
  the confirm event is answered with the missing-data reply, not with the reply about the
  missing link.
\<close>

theorem unlinked_confirm_counterexample:
  "cx_linked_bitrix_id (example_ctx None disk_denied tasks_unreachable) = None
   \<and> cb_confirm_create (example_ctx None disk_denied tasks_unreachable) (example_session None [])
      = (END, no_user_data, [Answer, Reply MissingData])
   \<and> Reply LinkRequiredForTask
        \<notin> set (snd (snd (cb_confirm_create (example_ctx None disk_denied tasks_unreachable)
                            (example_session None []))))"
  by code_simp

text \<open>
  C9, amended. For every confirm event by a user without a link, nothing is uploaded, no
  task is created and the session is cleared; when title and description are not empty
  after trimming, the only reply is that a task cannot be created without linking a
  profile. The start by the inline button looks no link up and opens a session.
\<close>

theorem unlinked_confirm:
  assumes "cx_linked_bitrix_id cx = None"
  shows "fst (cb_confirm_create cx ud) = END
         \<and> fst (snd (cb_confirm_create cx ud)) = no_user_data
         \<and> list_ex is_remote_call (snd (snd (cb_confirm_create cx ud))) = False
         \<and> (strip (or_empty (ud_title ud)) \<noteq> [] \<and> strip (or_empty (ud_description ud)) \<noteq> []
              \<longrightarrow> snd (snd (cb_confirm_create cx ud)) = [Answer, LookupLink, Reply LinkRequiredForTask])
         \<and> fst (cb_start_task cx ud) = WAIT_TITLE
         \<and> LookupLink \<notin> set (snd (snd (cb_start_task cx ud)))"
  using assms by (simp add: confirm_unlinked cb_start_task_def)

theorem unlinked_confirm_witness:
  "cx_linked_bitrix_id (example_ctx None disk_denied tasks_unreachable) = None
   \<and> strip (or_empty (ud_title (example_session (Some ''T'') [example_file ''a.png'']))) \<noteq> []
   \<and> strip (or_empty (ud_description (example_session (Some ''T'') [example_file ''a.png'']))) \<noteq> []
   \<and> cb_confirm_create (example_ctx None disk_denied tasks_unreachable)
        (example_session (Some ''T'') [example_file ''a.png''])
      = (END, no_user_data, [Answer, LookupLink, Reply LinkRequiredForTask])"
proof -
  have unlinked: "cx_linked_bitrix_id (example_ctx None disk_denied tasks_unreachable) = None"
    by (simp add: example_ctx_def)
  have title: "strip (or_empty (ud_title (example_session (Some ''T'') [example_file ''a.png'']))) \<noteq> []"
    by code_simp
  have desc: "strip (or_empty (ud_description (example_session (Some ''T'') [example_file ''a.png'']))) \<noteq> []"
    by code_simp
  show ?thesis
    using unlinked_confirm
            [OF unlinked, of "example_session (Some ''T'') [example_file ''a.png'']"]
          unlinked title desc
    by (auto simp: prod_eq_iff)
qed

text \<open>
  C5. On a confirm event with at least one staged file whose uploads all fail (no id, a
  non-empty list of failed names), no call is made to the ticketing collaborator and the
  session is cleared; the last reply is the one that says that no attachment could be
  uploaded and that the task was not created, with the failed names.
\<close>

theorem all_uploads_failed_no_task:
  assumes staged: "get_files ud \<noteq> []"
    and failed: "fst (upload_files_to_bitrix_disk (cx_disk cx) (bitrix_disk_folder_id (cx_settings cx))
                   (get_files ud) (bitrix_upload_max_attempts (cx_settings cx))
                   (bitrix_upload_parallelism (cx_settings cx))) = ([], failed_files)"
    and some: "failed_files \<noteq> []"
  shows "fst (cb_confirm_create cx ud) = END
         \<and> fst (snd (cb_confirm_create cx ud)) = no_user_data
         \<and> list_ex is_create_task (snd (snd (cb_confirm_create cx ud))) = False
         \<and> (strip (or_empty (ud_title ud)) \<noteq> [] \<and> strip (or_empty (ud_description ud)) \<noteq> []
              \<and> cx_linked_bitrix_id cx \<noteq> None
              \<longrightarrow> last (snd (snd (cb_confirm_create cx ud))) = Reply (AllUploadsFailed failed_files))"
proof -
  obtain calls where up:
    "upload_files_to_bitrix_disk (cx_disk cx) (bitrix_disk_folder_id (cx_settings cx))
       (get_files ud) (bitrix_upload_max_attempts (cx_settings cx))
       (bitrix_upload_parallelism (cx_settings cx)) = (([], failed_files), calls)"
    using failed by (metis prod.collapse)
  show ?thesis
    using staged some up
    by (auto simp: cb_confirm_create_def Let_def split: option.splits)
qed

theorem all_uploads_failed_no_task_witness:
  "get_files (example_session (Some ''T'') [example_file ''a.png'']) \<noteq> []
   \<and> fst (upload_files_to_bitrix_disk disk_denied 7
            (get_files (example_session (Some ''T'') [example_file ''a.png''])) 2 2)
       = ([], [''a.png''])
   \<and> [''a.png''] \<noteq> []
   \<and> fst (cb_confirm_create (example_ctx (Some 5) disk_denied tasks_unreachable)
            (example_session (Some ''T'') [example_file ''a.png''])) = END
   \<and> fst (snd (cb_confirm_create (example_ctx (Some 5) disk_denied tasks_unreachable)
            (example_session (Some ''T'') [example_file ''a.png'']))) = no_user_data
   \<and> list_ex is_create_task
        (snd (snd (cb_confirm_create (example_ctx (Some 5) disk_denied tasks_unreachable)
            (example_session (Some ''T'') [example_file ''a.png''])))) = False
   \<and> last (snd (snd (cb_confirm_create (example_ctx (Some 5) disk_denied tasks_unreachable)
            (example_session (Some ''T'') [example_file ''a.png'']))))
       = Reply (AllUploadsFailed [''a.png''])"
proof -
  let ?cx = "example_ctx (Some 5) disk_denied tasks_unreachable"
  let ?ud = "example_session (Some ''T'') [example_file ''a.png'']"
  have staged: "get_files ?ud \<noteq> []"
    by code_simp
  have failed: "fst (upload_files_to_bitrix_disk (cx_disk ?cx) (bitrix_disk_folder_id (cx_settings ?cx))
                   (get_files ?ud) (bitrix_upload_max_attempts (cx_settings ?cx))
                   (bitrix_upload_parallelism (cx_settings ?cx))) = ([], [''a.png''])"
    by code_simp
  have failed': "fst (upload_files_to_bitrix_disk disk_denied 7 (get_files ?ud) 2 2) = ([], [''a.png''])"
    by code_simp
  have valid: "strip (or_empty (ud_title ?ud)) \<noteq> []" "strip (or_empty (ud_description ?ud)) \<noteq> []"
    "cx_linked_bitrix_id ?cx \<noteq> None"
    by code_simp+
  show ?thesis
    using all_uploads_failed_no_task[OF staged failed] staged failed' valid
    by simp
qed

section \<open>The attachment collector\<close>

lemma on_attachment_count:
  assumes "staged_count ud \<le> MAX_ATTACHMENTS_PER_TASK"
  shows "staged_count (fst (snd (on_attachment cx m ud))) \<le> MAX_ATTACHMENTS_PER_TASK"
  using assms
  by (auto simp: on_attachment_def staged_count_def get_files_def Let_def
           split: option.splits)

lemma handle_count:
  assumes "staged_count ud \<le> MAX_ATTACHMENTS_PER_TASK"
  shows "staged_count (handle cx u ud) \<le> MAX_ATTACHMENTS_PER_TASK"
proof (cases u)
  case (OnAttachment m)
  then show ?thesis using on_attachment_count[OF assms] by (simp add: handle_def)
next
  case CbConfirmCreate
  then show ?thesis
    by (simp add: handle_def confirm_clears staged_count_def get_files_def no_user_data_def)
qed (use assms in \<open>auto simp: handle_def staged_count_def get_files_def no_user_data_def
       cmd_task_def cb_start_task_def on_title_def on_description_def cb_attachments_done_def
       cb_cancel_task_def cmd_cancel_def hydrate_link_def Let_def split: option.splits\<close>)

lemma handle_all_count:
  assumes "staged_count ud \<le> MAX_ATTACHMENTS_PER_TASK"
  shows "staged_count (handle_all evs ud) \<le> MAX_ATTACHMENTS_PER_TASK"
  using assms
proof (induction evs arbitrary: ud)
  case Nil
  then show ?case by simp
next
  case (Cons ev evs)
  obtain cx u where ev: "ev = (cx, u)" by (cases ev)
  show ?case
    unfolding ev handle_all.simps
    by (rule Cons.IH) (rule handle_count[OF Cons.prems])
qed

text \<open>
  C6. The number of staged files never exceeds 10: it is at most 10 after every sequence of
  handler invocations, from no session data and from every session data that holds at
  most 10. An attachment event on session data that holds 10 files (or more) appends
  nothing, fetches and writes nothing and leaves the staged files as they are; when there
  is a session it is answered with the limit reply and the conversation stays in the
  attachment step.
\<close>

theorem staged_count_bounded:
  "staged_count (handle_all evs no_user_data) \<le> 10
   \<and> (staged_count ud \<le> 10 \<longrightarrow> staged_count (handle_all evs ud) \<le> 10)
   \<and> (staged_count ud \<ge> 10 \<longrightarrow>
        fst (snd (on_attachment cx m ud)) = ud
        \<and> list_ex is_staging_write (snd (snd (on_attachment cx m ud))) = False)
   \<and> (staged_count ud \<ge> 10 \<and> ud_ticket_id ud \<noteq> None \<and> ud_ticket_id ud \<noteq> Some [] \<longrightarrow>
        on_attachment cx m ud = (WAIT_ATTACHMENTS, ud, [SendAction, Reply AttachmentLimit]))"
proof -
  have start: "staged_count no_user_data \<le> MAX_ATTACHMENTS_PER_TASK"
    by (simp add: staged_count_def get_files_def no_user_data_def)
  have a: "staged_count (handle_all evs no_user_data) \<le> 10"
    using handle_all_count[OF start] by (simp add: MAX_ATTACHMENTS_PER_TASK_def)
  have b: "staged_count ud \<le> 10 \<longrightarrow> staged_count (handle_all evs ud) \<le> 10"
    using handle_all_count[of ud evs] by (simp add: MAX_ATTACHMENTS_PER_TASK_def)
  have c: "staged_count ud \<ge> 10 \<longrightarrow>
        fst (snd (on_attachment cx m ud)) = ud
        \<and> list_ex is_staging_write (snd (snd (on_attachment cx m ud))) = False"
    by (auto simp: on_attachment_def staged_count_def MAX_ATTACHMENTS_PER_TASK_def Let_def
             split: option.splits)
  have d: "staged_count ud \<ge> 10 \<and> ud_ticket_id ud \<noteq> None \<and> ud_ticket_id ud \<noteq> Some [] \<longrightarrow>
        on_attachment cx m ud = (WAIT_ATTACHMENTS, ud, [SendAction, Reply AttachmentLimit])"
    by (auto simp: on_attachment_def staged_count_def MAX_ATTACHMENTS_PER_TASK_def Let_def
             split: option.splits)
  show ?thesis using a b c d by blast
qed

theorem staged_count_bounded_witness:
  "staged_count (handle_all
      ((example_ctx None disk_denied tasks_unreachable, CbStartTask)
       # replicate 11 (example_ctx None disk_denied tasks_unreachable,
                       OnAttachment (example_photo (Some 1000))))
      no_user_data) = 10
   \<and> staged_count (example_session (Some ''T'') (replicate 10 (example_file ''a.png''))) \<ge> 10
   \<and> ud_ticket_id (example_session (Some ''T'') (replicate 10 (example_file ''a.png''))) \<noteq> None
   \<and> ud_ticket_id (example_session (Some ''T'') (replicate 10 (example_file ''a.png''))) \<noteq> Some []
   \<and> on_attachment (example_ctx None disk_denied tasks_unreachable) (example_photo (Some 1000))
        (example_session (Some ''T'') (replicate 10 (example_file ''a.png'')))
      = (WAIT_ATTACHMENTS, example_session (Some ''T'') (replicate 10 (example_file ''a.png'')),
         [SendAction, Reply AttachmentLimit])"
proof -
  let ?cx = "example_ctx None disk_denied tasks_unreachable"
  let ?ud = "example_session (Some ''T'') (replicate 10 (example_file ''a.png''))"
  have eleven: "staged_count (handle_all
      ((?cx, CbStartTask) # replicate 11 (?cx, OnAttachment (example_photo (Some 1000))))
      no_user_data) \<ge> 10"
    by code_simp
  have full: "staged_count ?ud \<ge> 10" "ud_ticket_id ?ud \<noteq> None" "ud_ticket_id ?ud \<noteq> Some []"
    by code_simp+
  show ?thesis
    using staged_count_bounded
            [of "(?cx, CbStartTask) # replicate 11 (?cx, OnAttachment (example_photo (Some 1000)))"
                ?ud ?cx "example_photo (Some 1000)"]
          eleven full
    by simp
qed

text \<open>
  C7. An attachment whose reported size exceeds \<open>20 * 1024 * 1024\<close> bytes is never staged:
  the session data is unchanged, so no staged file is appended, nothing is fetched or
  written to the staging area, and the last reply is a rejection; with a session that
  holds fewer than 10 files it is the reply that the file is too large.
\<close>

theorem oversized_rejected:
  assumes "incoming_size m = Some n" and "n > 20 * 1024 * 1024"
  shows "fst (snd (on_attachment cx m ud)) = ud
         \<and> list_ex is_staging_write (snd (snd (on_attachment cx m ud))) = False
         \<and> (last (snd (snd (on_attachment cx m ud))) = Reply FileTooLarge
            \<or> last (snd (snd (on_attachment cx m ud))) = Reply AttachmentLimit
            \<or> last (snd (snd (on_attachment cx m ud))) = Reply SessionNotFound)
         \<and> (ud_ticket_id ud \<noteq> None \<and> ud_ticket_id ud \<noteq> Some [] \<and> staged_count ud < 10 \<longrightarrow>
              on_attachment cx m ud = (WAIT_ATTACHMENTS, ud, [SendAction, Reply FileTooLarge]))"
  using assms
  by (auto simp: on_attachment_def incoming_size_def attachment_too_large_def
        MAX_ATTACHMENT_BYTES_def MAX_ATTACHMENTS_PER_TASK_def staged_count_def Let_def
        split: option.splits if_splits)

theorem oversized_rejected_witness:
  "incoming_size (example_photo (Some 20971521)) = Some 20971521
   \<and> (20971521::int) > 20 * 1024 * 1024
   \<and> ud_ticket_id (example_session (Some ''T'') [example_file ''a.png'']) \<noteq> None
   \<and> ud_ticket_id (example_session (Some ''T'') [example_file ''a.png'']) \<noteq> Some []
   \<and> staged_count (example_session (Some ''T'') [example_file ''a.png'']) < 10
   \<and> on_attachment (example_ctx (Some 5) disk_denied tasks_unreachable)
        (example_photo (Some 20971521)) (example_session (Some ''T'') [example_file ''a.png''])
      = (WAIT_ATTACHMENTS, example_session (Some ''T'') [example_file ''a.png''],
         [SendAction, Reply FileTooLarge])"
proof -
  let ?ud = "example_session (Some ''T'') [example_file ''a.png'']"
  have size: "incoming_size (example_photo (Some 20971521)) = Some 20971521"
    by code_simp
  have big: "(20971521::int) > 20 * 1024 * 1024"
    by simp
  have session: "ud_ticket_id ?ud \<noteq> None" "ud_ticket_id ?ud \<noteq> Some []" "staged_count ?ud < 10"
    by code_simp+
  show ?thesis
    using oversized_rejected[OF size big, of "example_ctx (Some 5) disk_denied tasks_unreachable" ?ud]
          size session
    by simp
qed

end
